theory Spec2Isabelle
  imports Complex_Main
begin

section \<open>Python values, dictionaries and strings\<close>

text \<open>
  The client of \<^verbatim>\<open>examples/python-client.py\<close> builds dictionaries of Python values and
  hands them to the \<^verbatim>\<open>requests\<close> library. A Python value is modelled by \<open>pyval\<close>; a
  float is the decimal number its literal denotes.
\<close>

datatype pyval =
    PNone
  | PBool bool
  | PInt int
  | PFloat rat
  | PStr string
  | PList "pyval list"
  | PDict "(string \<times> pyval) list"

text \<open>
  A \<^verbatim>\<open>dict\<close> keeps its keys in insertion order, so it is an association list.
  \<open>dict_set d k v\<close> is \<^verbatim>\<open>d[k] = v\<close>: it replaces the value of a key that is present,
  in place, and appends a new key at the end.
\<close>

type_synonym 'v dict = "(string \<times> 'v) list"

fun dict_set :: "'v dict \<Rightarrow> string \<Rightarrow> 'v \<Rightarrow> 'v dict" where
  "dict_set [] k v = [(k, v)]"
| "dict_set ((k', v') # d) k v =
     (if k' = k then (k, v) # d else (k', v') # dict_set d k v)"

text \<open>
  \<open>dict_update d e\<close> writes the items of \<open>e\<close> into \<open>d\<close> one after the other, as
  \<^verbatim>\<open>d.update(e)\<close> and the unpacking \<^verbatim>\<open>{..., **e}\<close> of a dictionary display do.
\<close>

fun dict_update :: "'v dict \<Rightarrow> 'v dict \<Rightarrow> 'v dict" where
  "dict_update d [] = d"
| "dict_update d ((k, v) # e) = dict_update (dict_set d k v) e"

definition dict_get :: "'v dict \<Rightarrow> string \<Rightarrow> 'v option" where
  "dict_get d k = map_of d k"

text \<open>\<^verbatim>\<open>s.lstrip(chars)\<close> and \<^verbatim>\<open>s.rstrip(chars)\<close>: drop the leading (trailing)
  characters that occur in \<open>chars\<close>.\<close>

fun lstrip :: "string \<Rightarrow> string \<Rightarrow> string" where
  "lstrip chars [] = []"
| "lstrip chars (c # s) = (if c \<in> set chars then lstrip chars s else c # s)"

definition rstrip :: "string \<Rightarrow> string \<Rightarrow> string" where
  "rstrip chars s = rev (lstrip chars (rev s))"

text \<open>\<^verbatim>\<open>sep.join(xs)\<close>.\<close>

fun join :: "string \<Rightarrow> string list \<Rightarrow> string" where
  "join sep [] = []"
| "join sep [x] = x"
| "join sep (x # y # xs) = x @ sep @ join sep (y # xs)"

text \<open>Truth value of an \<^verbatim>\<open>Optional[str]\<close> and of an \<^verbatim>\<open>Optional[List]\<close>:
  \<^verbatim>\<open>None\<close>, the empty string and the empty list are false.\<close>

fun truthy :: "'a list option \<Rightarrow> bool" where
  "truthy None = False"
| "truthy (Some xs) = (xs \<noteq> [])"

text \<open>Truth value of any Python value, as \<^verbatim>\<open>if description:\<close> takes it.\<close>

fun py_truthy :: "pyval \<Rightarrow> bool" where
  "py_truthy PNone = False"
| "py_truthy (PBool b) = b"
| "py_truthy (PInt i) = (i \<noteq> 0)"
| "py_truthy (PFloat r) = (r \<noteq> 0)"
| "py_truthy (PStr s) = (s \<noteq> [])"
| "py_truthy (PList xs) = (xs \<noteq> [])"
| "py_truthy (PDict d) = (d \<noteq> [])"

text \<open>\<^verbatim>\<open>k in d\<close>.\<close>

definition has_key :: "'v dict \<Rightarrow> string \<Rightarrow> bool" where
  "has_key d k = (dict_get d k \<noteq> None)"

text \<open>\<^verbatim>\<open>x or []\<close>.\<close>

fun or_empty :: "'a list option \<Rightarrow> 'a list" where
  "or_empty None = []"
| "or_empty (Some xs) = (if xs \<noteq> [] then xs else [])"

text \<open>A parameter with a default value: \<open>None\<close> stands for an argument that the caller
  did not pass.\<close>

fun default_arg :: "'a \<Rightarrow> 'a option \<Rightarrow> 'a" where
  "default_arg d None = d"
| "default_arg d (Some x) = x"

section \<open>Configuration\<close>

record MemoryServiceConfig =
  base_url :: string
  auth_token :: string
  timeout :: int
  verify_ssl :: bool

text \<open>The constructor of the dataclass, with the defaults of its last two fields.\<close>

definition MemoryServiceConfig_new ::
  "string \<Rightarrow> string \<Rightarrow> int option \<Rightarrow> bool option \<Rightarrow> MemoryServiceConfig" where
  "MemoryServiceConfig_new url token t v =
     \<lparr>base_url = url, auth_token = token,
      timeout = default_arg 30 t, verify_ssl = default_arg True v\<rparr>"

section \<open>The part of the \<^verbatim>\<open>requests\<close> library that the client uses\<close>

text \<open>
  A \<^verbatim>\<open>requests.Session\<close> holds default headers and the TLS verification flag. It has no
  timeout of its own: \<^verbatim>\<open>Session.request\<close> takes the timeout from its keyword argument
  \<^verbatim>\<open>timeout\<close>, whose default is \<^verbatim>\<open>None\<close> (wait without limit). The assignment
  \<^verbatim>\<open>self.session.timeout = ...\<close> of the client therefore creates a new attribute on the
  object, the field \<open>timeout_attr\<close> here, which the library never reads. Header names
  are compared as they are written: the client spells the names it sets as the library
  spells its defaults.
\<close>

record Session =
  headers :: "string dict"
  verify :: bool
  timeout_attr :: "int option"

text \<open>\<^verbatim>\<open>requests.Session()\<close>: the library's default headers (the version suffix of its
  \<^verbatim>\<open>User-Agent\<close> is left out), verification on, no attribute \<^verbatim>\<open>timeout\<close>.\<close>

definition Session_new :: Session where
  "Session_new =
     \<lparr>headers = [(''User-Agent'', ''python-requests''),
                 (''Accept-Encoding'', ''gzip, deflate''),
                 (''Accept'', ''*/*''),
                 (''Connection'', ''keep-alive'')],
      verify = True, timeout_attr = None\<rparr>"

text \<open>The keyword arguments of \<^verbatim>\<open>Session.request\<close> that matter here; an argument that
  is not passed is \<open>None\<close>.\<close>

record request_kwargs =
  kw_params :: "pyval dict option"
  kw_json :: "pyval option"
  kw_headers :: "string dict option"
  kw_timeout :: "int option"
  kw_verify :: "bool option"

definition no_kwargs :: request_kwargs where
  "no_kwargs = \<lparr>kw_params = None, kw_json = None, kw_headers = None,
                 kw_timeout = None, kw_verify = None\<rparr>"

text \<open>
  The request that \<^verbatim>\<open>Session.request\<close> is asked to make: the arguments of the call merged
  with the settings of the session. Method, URL, parameters, JSON body and timeout are
  those of the call; \<open>req_headers\<close> are the headers of the session updated by those of the
  call, and \<open>req_verify\<close> is the verification flag of the session unless the call passes
  one. The library prepares the message on the wire from this. It adds the headers of
  the body (\<^verbatim>\<open>Content-Length\<close>); it sets \<^verbatim>\<open>Authorization\<close> itself when it finds
  credentials for the URL (\<open>authorization_sent\<close> below); it verifies against the bundle
  named by \<^verbatim>\<open>REQUESTS_CA_BUNDLE\<close> or \<^verbatim>\<open>CURL_CA_BUNDLE\<close> when one of them is set and the
  call passes no \<^verbatim>\<open>verify\<close>; and it follows a redirect with a request of its own, from
  which it removes \<^verbatim>\<open>Authorization\<close> when the redirect leaves the host. Those further
  requests are not events of this model.
\<close>

record HttpRequest =
  req_method :: string
  req_url :: string
  req_headers :: "string dict"
  req_params :: "pyval dict"
  req_json :: "pyval option"
  req_timeout :: "int option"
  req_verify :: bool

definition session_request :: "Session \<Rightarrow> string \<Rightarrow> string \<Rightarrow> request_kwargs \<Rightarrow> HttpRequest" where
  "session_request s method url kw =
     \<lparr>req_method = method,
      req_url = url,
      req_headers = dict_update (headers s) (default_arg [] (kw_headers kw)),
      req_params = default_arg [] (kw_params kw),
      req_json = kw_json kw,
      req_timeout = kw_timeout kw,
      req_verify = default_arg (verify s) (kw_verify kw)\<rparr>"

text \<open>
  The credentials that the library finds for the URL of a request when neither the call
  nor the session passes \<^verbatim>\<open>auth\<close>: the entry of \<^verbatim>\<open>~/.netrc\<close> for the host or, when there
  is none, the user and the password written in the URL itself. What it finds depends on
  the machine, so the lookup is a parameter.
\<close>

type_synonym credentials = "string \<Rightarrow> (string \<times> string) option"

text \<open>A lookup that finds credentials for one URL only.\<close>

definition credentials_at :: "string \<Rightarrow> (string \<times> string) option \<Rightarrow> credentials" where
  "credentials_at url c u = (if u = url then c else None)"

text \<open>Base64 of a list of bytes, and the value of the header of HTTP Basic
  authentication: \<^verbatim>\<open>'Basic ' + b64encode(username + ':' + password)\<close>.\<close>

definition b64_char :: "nat \<Rightarrow> char" where
  "b64_char n =
     ''ABCDEFGHIJKLMNOPQRSTUVWXYZabcdefghijklmnopqrstuvwxyz0123456789+/'' ! (n mod 64)"

fun b64encode :: "nat list \<Rightarrow> string" where
  "b64encode [] = []"
| "b64encode [a] = [b64_char (a div 4), b64_char ((a mod 4) * 16), CHR ''='', CHR ''='']"
| "b64encode [a, b] =
     [b64_char (a div 4), b64_char ((a mod 4) * 16 + b div 16),
      b64_char ((b mod 16) * 4), CHR ''='']"
| "b64encode (a # b # c # bs) =
     [b64_char (a div 4), b64_char ((a mod 4) * 16 + b div 16),
      b64_char ((b mod 16) * 4 + c div 64), b64_char (c mod 64)] @ b64encode bs"

definition basic_auth_str :: "string \<Rightarrow> string \<Rightarrow> string" where
  "basic_auth_str username password =
     ''Basic '' @ b64encode (map of_char (username @ '':'' @ password))"

text \<open>The \<^verbatim>\<open>Authorization\<close> header with which the request goes out: the library's Basic
  authentication when it finds credentials for the URL, else the header it was given.\<close>

definition authorization_sent :: "credentials \<Rightarrow> HttpRequest \<Rightarrow> string option" where
  "authorization_sent found req =
     (case found (req_url req) of
        None \<Rightarrow> dict_get (req_headers req) ''Authorization''
      | Some (username, password) \<Rightarrow> Some (basic_auth_str username password))"

text \<open>A response: its status, its body, and what \<^verbatim>\<open>response.json()\<close> gives
  (\<open>None\<close> when the body does not parse as JSON and the method raises).\<close>

record Response =
  status_code :: int
  body_text :: string
  json_result :: "pyval option"

text \<open>
  Exceptions. \<open>RequestException cls r\<close> is an instance of \<^verbatim>\<open>requests.exceptions.RequestException\<close>
  of class \<open>cls\<close> whose attribute \<^verbatim>\<open>response\<close> is \<open>r\<close>; \<open>OtherException\<close> is any other
  \<^verbatim>\<open>Exception\<close>.
\<close>

datatype exn =
    RequestException string "Response option"
  | OtherException string

definition HTTPError :: "Response \<Rightarrow> exn" where
  "HTTPError r = RequestException ''HTTPError'' (Some r)"

text \<open>The \<^verbatim>\<open>TypeError\<close> of a call that gives a parameter two values.\<close>

definition TypeError :: exn where
  "TypeError = OtherException ''TypeError''"

text \<open>The exception of \<^verbatim>\<open>response.json()\<close> on a body that is not JSON: in the library
  (from version 2.27 on) a \<^verbatim>\<open>RequestException\<close> without a response.\<close>

definition JSONDecodeError :: exn where
  "JSONDecodeError = RequestException ''JSONDecodeError'' None"

text \<open>\<^verbatim>\<open>response.raise_for_status()\<close>: the library raises for a client error (4xx) and for
  a server error (5xx), and for no other status.\<close>

definition raise_for_status :: "Response \<Rightarrow> exn option" where
  "raise_for_status r =
     (if 400 \<le> status_code r \<and> status_code r < 500 then Some (HTTPError r)
      else if 500 \<le> status_code r \<and> status_code r < 600 then Some (HTTPError r)
      else None)"

definition response_json :: "Response \<Rightarrow> exn + pyval" where
  "response_json r = (case json_result r of None \<Rightarrow> Inl JSONDecodeError | Some j \<Rightarrow> Inr j)"

section \<open>Effects\<close>

text \<open>
  The network is a parameter: it answers a request with a response or raises, and may
  change its own state \<open>'w\<close>. What a call does besides returning is a trace of events:
  the requests it sent and what it printed. A \<^verbatim>\<open>print\<close> is recorded by what it shows
  (a fixed line, the dump of a JSON value, the failure of a request, the details of an
  error, the text of a response, the error line of the driver), not by the characters
  of the formatted line.
\<close>

type_synonym 'w net = "HttpRequest \<Rightarrow> 'w \<Rightarrow> (exn + Response) \<times> 'w"

datatype printed =
    Line string
  | JsonDump pyval
  | RequestFailed exn
  | ErrorDetails pyval
  | ResponseText string
  | ErrorLine exn

datatype event = Sent HttpRequest | Printed printed

type_synonym ('a, 'w) io = "'w \<Rightarrow> (exn + 'a) \<times> event list \<times> 'w"

definition print_io :: "printed \<Rightarrow> (unit, 'w) io" where
  "print_io p w = (Inr (), [Printed p], w)"

text \<open>Sequencing of two statements: an exception of the first skips the second.\<close>

definition then_io :: "('a, 'w) io \<Rightarrow> ('a \<Rightarrow> ('b, 'w) io) \<Rightarrow> ('b, 'w) io" where
  "then_io m f w =
     (case m w of
        (Inl e, t, w') \<Rightarrow> (Inl e, t, w')
      | (Inr x, t, w') \<Rightarrow> (case f x w' of (r, t', w'') \<Rightarrow> (r, t @ t', w'')))"

definition issued :: "event list \<Rightarrow> HttpRequest list" where
  "issued t = concat (map (\<lambda>ev. case ev of Sent r \<Rightarrow> [r] | Printed _ \<Rightarrow> []) t)"

definition printed_of :: "event list \<Rightarrow> printed list" where
  "printed_of t = concat (map (\<lambda>ev. case ev of Sent _ \<Rightarrow> [] | Printed p \<Rightarrow> [p]) t)"

section \<open>The client\<close>

record MemoryServiceClient =
  config :: MemoryServiceConfig
  session :: Session

text \<open>\<^verbatim>\<open>MemoryServiceClient.__init__\<close>.\<close>

definition init :: "MemoryServiceConfig \<Rightarrow> MemoryServiceClient" where
  "init cfg =
     (let s0 = Session_new;
          s1 = s0\<lparr>headers := dict_update (headers s0)
                  [(''Content-Type'', ''application/json''),
                   (''Accept'', ''application/json''),
                   (''Authorization'', ''Bearer '' @ auth_token cfg),
                   (''X-Client-Type'', ''python''),
                   (''X-Client-Version'', ''1.0.0''),
                   (''User-Agent'', ''mcp-memory-python-client/1.0.0'')]\<rparr>;
          s2 = s1\<lparr>verify := verify_ssl cfg\<rparr>;
          s3 = s2\<lparr>timeout_attr := Some (timeout cfg)\<rparr>
      in \<lparr>config = cfg, session = s3\<rparr>)"

text \<open>The URL of \<^verbatim>\<open>_request\<close>.\<close>

definition request_url :: "MemoryServiceClient \<Rightarrow> string \<Rightarrow> string" where
  "request_url self endpoint =
     rstrip ''/'' (base_url (config self)) @ ''/'' @ lstrip ''/'' endpoint"

text \<open>The body of the \<^verbatim>\<open>try\<close> block of \<^verbatim>\<open>_request\<close>: send, raise for an error status,
  parse the body.\<close>

definition request_try ::
  "MemoryServiceClient \<Rightarrow> 'w net \<Rightarrow> string \<Rightarrow> string \<Rightarrow> request_kwargs \<Rightarrow> (pyval, 'w) io" where
  "request_try self net method endpoint kw w =
     (let req = session_request (session self) method (request_url self endpoint) kw
      in case net req w of
           (Inl e, w') \<Rightarrow> (Inl e, [Sent req], w')
         | (Inr response, w') \<Rightarrow>
             (case raise_for_status response of
                Some e \<Rightarrow> (Inl e, [Sent req], w')
              | None \<Rightarrow> (response_json response, [Sent req], w')))"

text \<open>
  The handler \<^verbatim>\<open>except requests.exceptions.RequestException as e\<close>, up to its final
  \<^verbatim>\<open>raise\<close>: what it prints. The inner \<^verbatim>\<open>try\<close> catches every failure of
  \<^verbatim>\<open>e.response.json()\<close> and prints the text of the response instead.
\<close>

definition diagnostics :: "Response option \<Rightarrow> printed list" where
  "diagnostics resp =
     (case resp of
        None \<Rightarrow> []
      | Some r \<Rightarrow>
          (case response_json r of
             Inr error_data \<Rightarrow> [ErrorDetails error_data]
           | Inl _ \<Rightarrow> [ResponseText (body_text r)]))"

text \<open>\<^verbatim>\<open>_request\<close>: an exception that is not a \<^verbatim>\<open>RequestException\<close> passes the handler by;
  the handler ends with \<^verbatim>\<open>raise\<close>, which raises the exception it caught.\<close>

definition request ::
  "MemoryServiceClient \<Rightarrow> 'w net \<Rightarrow> string \<Rightarrow> string \<Rightarrow> request_kwargs \<Rightarrow> (pyval, 'w) io" where
  "request self net method endpoint kw w =
     (case request_try self net method endpoint kw w of
        (Inr j, t, w') \<Rightarrow> (Inr j, t, w')
      | (Inl (RequestException cls resp), t, w') \<Rightarrow>
          (Inl (RequestException cls resp),
           t @ map Printed (RequestFailed (RequestException cls resp) # diagnostics resp), w')
      | (Inl (OtherException m), t, w') \<Rightarrow> (Inl (OtherException m), t, w'))"

definition health_check :: "MemoryServiceClient \<Rightarrow> 'w net \<Rightarrow> (pyval, 'w) io" where
  "health_check self net = request self net ''GET'' ''/api/health'' no_kwargs"

definition get_service_info :: "MemoryServiceClient \<Rightarrow> 'w net \<Rightarrow> (pyval, 'w) io" where
  "get_service_info self net = request self net ''GET'' ''/api'' no_kwargs"

definition add_memory_data ::
  "string \<Rightarrow> string \<Rightarrow> string option \<Rightarrow> int option \<Rightarrow> string list option \<Rightarrow> int list option
   \<Rightarrow> pyval dict" where
  "add_memory_data title content memory_type importance tags entity_ids =
     [(''title'', PStr title),
      (''content'', PStr content),
      (''memory_type'', PStr (default_arg ''MEMORY'' memory_type)),
      (''importance'', PInt (default_arg 2 importance)),
      (''tags'', PList (map PStr (or_empty tags))),
      (''entity_ids'', PList (map PInt (or_empty entity_ids)))]"

definition add_memory ::
  "MemoryServiceClient \<Rightarrow> 'w net \<Rightarrow> string \<Rightarrow> string \<Rightarrow> string option \<Rightarrow> int option
   \<Rightarrow> string list option \<Rightarrow> int list option \<Rightarrow> (pyval, 'w) io" where
  "add_memory self net title content memory_type importance tags entity_ids =
     request self net ''POST'' ''/api/memories''
       (no_kwargs\<lparr>kw_json := Some (PDict
          (add_memory_data title content memory_type importance tags entity_ids))\<rparr>)"

definition search_memories_params ::
  "string \<Rightarrow> int option \<Rightarrow> rat option \<Rightarrow> string list option \<Rightarrow> pyval dict" where
  "search_memories_params query limit threshold memory_types =
     (let params = [(''query'', PStr query),
                    (''limit'', PInt (default_arg 10 limit)),
                    (''threshold'', PFloat (default_arg (7 / 10) threshold))];
          params = (if truthy memory_types
                    then dict_set params ''memory_types''
                           (PStr (join '','' (default_arg [] memory_types)))
                    else params)
      in params)"

definition search_memories ::
  "MemoryServiceClient \<Rightarrow> 'w net \<Rightarrow> string \<Rightarrow> int option \<Rightarrow> rat option
   \<Rightarrow> string list option \<Rightarrow> (pyval, 'w) io" where
  "search_memories self net query limit threshold memory_types =
     request self net ''GET'' ''/api/memories/search''
       (no_kwargs\<lparr>kw_params := Some
          (search_memories_params query limit threshold memory_types)\<rparr>)"

text \<open>
  \<^verbatim>\<open>create_entity\<close>. The arguments of the model are those of a call: \<open>name\<close> and
  \<open>entity_type\<close>; \<open>description\<close> and \<open>importance\<close>, which are \<open>None\<close> when the call does not
  pass them in their own place; and \<open>extra\<close>, the further keyword arguments of the call,
  as \<^verbatim>\<open>**extra\<close>. Python binds a keyword argument that is named like a parameter to that
  parameter: when the parameter has its value already the call raises \<^verbatim>\<open>TypeError\<close> and
  the body of the method does not run; otherwise the parameter takes the value. What
  is left is the dictionary \<^verbatim>\<open>kwargs\<close> of the method.
\<close>

definition create_entity_bind ::
  "string option \<Rightarrow> int option \<Rightarrow> pyval dict \<Rightarrow> exn + pyval \<times> pyval \<times> pyval dict" where
  "create_entity_bind description importance extra =
     (if has_key extra ''self'' \<or> has_key extra ''name'' \<or> has_key extra ''entity_type''
      then Inl TypeError
      else if description \<noteq> None \<and> has_key extra ''description'' then Inl TypeError
      else if importance \<noteq> None \<and> has_key extra ''importance'' then Inl TypeError
      else Inr
        (case description of
           Some d \<Rightarrow> PStr d
         | None \<Rightarrow> (case dict_get extra ''description'' of Some v \<Rightarrow> v | None \<Rightarrow> PNone),
         case importance of
           Some i \<Rightarrow> PInt i
         | None \<Rightarrow> (case dict_get extra ''importance'' of Some v \<Rightarrow> v | None \<Rightarrow> PInt 2),
         filter (\<lambda>kv. fst kv \<noteq> ''description'' \<and> fst kv \<noteq> ''importance'') extra))"

text \<open>The body of the method, on the values of its parameters.\<close>

definition create_entity_data ::
  "string \<Rightarrow> string \<Rightarrow> pyval \<Rightarrow> pyval \<Rightarrow> pyval dict \<Rightarrow> pyval dict" where
  "create_entity_data name entity_type description importance kwargs =
     (let data = dict_update
                   [(''name'', PStr name),
                    (''entity_type'', PStr entity_type),
                    (''importance'', importance)]
                   kwargs;
          data = (if py_truthy description
                  then dict_set data ''description'' description
                  else data)
      in data)"

definition create_entity ::
  "MemoryServiceClient \<Rightarrow> 'w net \<Rightarrow> string \<Rightarrow> string \<Rightarrow> string option \<Rightarrow> int option
   \<Rightarrow> pyval dict \<Rightarrow> (pyval, 'w) io" where
  "create_entity self net name entity_type description importance extra w =
     (case create_entity_bind description importance extra of
        Inl e \<Rightarrow> (Inl e, [], w)
      | Inr (d, i, kwargs) \<Rightarrow>
          request self net ''POST'' ''/api/entities''
            (no_kwargs\<lparr>kw_json := Some (PDict
               (create_entity_data name entity_type d i kwargs))\<rparr>) w)"

definition search_entities_params :: "string \<Rightarrow> int option \<Rightarrow> pyval dict" where
  "search_entities_params query limit =
     [(''query'', PStr query), (''limit'', PInt (default_arg 10 limit))]"

definition search_entities ::
  "MemoryServiceClient \<Rightarrow> 'w net \<Rightarrow> string \<Rightarrow> int option \<Rightarrow> (pyval, 'w) io" where
  "search_entities self net query limit =
     request self net ''GET'' ''/api/entities/search''
       (no_kwargs\<lparr>kw_params := Some (search_entities_params query limit)\<rparr>)"

definition unified_search_params ::
  "string \<Rightarrow> int option \<Rightarrow> rat option \<Rightarrow> string list option \<Rightarrow> string list option
   \<Rightarrow> pyval dict" where
  "unified_search_params query limit threshold memory_types entity_types =
     (let params = [(''query'', PStr query),
                    (''limit'', PInt (default_arg 10 limit)),
                    (''threshold'', PFloat (default_arg (7 / 10) threshold))];
          params = (if truthy memory_types
                    then dict_set params ''memory_types''
                           (PStr (join '','' (default_arg [] memory_types)))
                    else params);
          params = (if truthy entity_types
                    then dict_set params ''entity_types''
                           (PStr (join '','' (default_arg [] entity_types)))
                    else params)
      in params)"

definition unified_search ::
  "MemoryServiceClient \<Rightarrow> 'w net \<Rightarrow> string \<Rightarrow> int option \<Rightarrow> rat option
   \<Rightarrow> string list option \<Rightarrow> string list option \<Rightarrow> (pyval, 'w) io" where
  "unified_search self net query limit threshold memory_types entity_types =
     request self net ''GET'' ''/api/search''
       (no_kwargs\<lparr>kw_params := Some
          (unified_search_params query limit threshold memory_types entity_types)\<rparr>)"

definition get_statistics :: "MemoryServiceClient \<Rightarrow> 'w net \<Rightarrow> (pyval, 'w) io" where
  "get_statistics self net = request self net ''GET'' ''/api/statistics'' no_kwargs"

definition create_user_data :: "string \<Rightarrow> string option \<Rightarrow> string option \<Rightarrow> pyval dict" where
  "create_user_data email name organization =
     (let data = [(''email'', PStr email)];
          data = (if truthy name
                  then dict_set data ''name'' (PStr (default_arg [] name))
                  else data);
          data = (if truthy organization
                  then dict_set data ''organization'' (PStr (default_arg [] organization))
                  else data)
      in data)"

definition create_user ::
  "MemoryServiceClient \<Rightarrow> 'w net \<Rightarrow> string \<Rightarrow> string option \<Rightarrow> string option
   \<Rightarrow> (pyval, 'w) io" where
  "create_user self net email name organization =
     request self net ''POST'' ''/api/users''
       (no_kwargs\<lparr>kw_json := Some (PDict (create_user_data email name organization))\<rparr>)"

section \<open>The example driver\<close>

text \<open>\<^verbatim>\<open>os.getenv(name, default)\<close> on an environment \<open>env\<close>.\<close>

definition getenv :: "(string \<rightharpoonup> string) \<Rightarrow> string \<Rightarrow> string \<Rightarrow> string" where
  "getenv env name dflt = (case env name of None \<Rightarrow> dflt | Some v \<Rightarrow> v)"

definition main_config :: "(string \<rightharpoonup> string) \<Rightarrow> MemoryServiceConfig" where
  "main_config env =
     MemoryServiceConfig_new
       (getenv env ''MEMORY_SERVICE_URL'' ''https://mcp-memory-ts.vercel.app'')
       (getenv env ''MEMORY_SERVICE_TOKEN'' ''demo-token-for-testing'')
       None None"

text \<open>The \<^verbatim>\<open>try\<close> block of \<^verbatim>\<open>main\<close>. A heading that starts with \<^verbatim>\<open>\n\<close> is one
  \<^verbatim>\<open>print\<close> of a string whose first character is the line feed.\<close>

definition main_try :: "MemoryServiceClient \<Rightarrow> 'w net \<Rightarrow> (unit, 'w) io" where
  "main_try client net =
     then_io (print_io (Line ''=== Health Check ===''))
     (\<lambda>_. then_io (health_check client net)
     (\<lambda>health. then_io (print_io (JsonDump health))
     (\<lambda>_. then_io (print_io (Line (CHR 0x0A # ''=== Service Info ===''))) 
     (\<lambda>_. then_io (get_service_info client net)
     (\<lambda>info. then_io (print_io (JsonDump info))
     (\<lambda>_. then_io (print_io (Line (CHR 0x0A # ''=== Adding Memory ===''))) 
     (\<lambda>_. then_io (add_memory client net ''Python Client Test''
                      ''This memory was created using the Python client library''
                      (Some ''MEMORY'') (Some 3) (Some [''test'', ''python'', ''api'']) None)
     (\<lambda>memory_result. then_io (print_io (JsonDump memory_result))
     (\<lambda>_. then_io (print_io (Line (CHR 0x0A # ''=== Searching Memories ===''))) 
     (\<lambda>_. then_io (search_memories client net ''Python client'' (Some 5) None None)
     (\<lambda>search_result. then_io (print_io (JsonDump search_result))
     (\<lambda>_. then_io (print_io (Line (CHR 0x0A # ''=== Creating Entity ===''))) 
     (\<lambda>_. then_io (create_entity client net ''Python Development Team'' ''ORGANIZATION''
                      (Some ''Team responsible for Python client development'') (Some 3) [])
     (\<lambda>entity_result. then_io (print_io (JsonDump entity_result))
     (\<lambda>_. then_io (print_io (Line (CHR 0x0A # ''=== User Statistics ===''))) 
     (\<lambda>_. then_io (get_statistics client net)
     (\<lambda>stats. print_io (JsonDump stats))))))))))))))))))"

text \<open>\<^verbatim>\<open>main\<close>: the value it returns is the exit status of the script
  (\<^verbatim>\<open>exit(main())\<close>).\<close>

definition main :: "(string \<rightharpoonup> string) \<Rightarrow> 'w net \<Rightarrow> 'w \<Rightarrow> int \<times> event list \<times> 'w" where
  "main env net w =
     (let config = main_config env;
          client = init config
      in case main_try client net w of
           (Inl e, t, w') \<Rightarrow> (1, t @ [Printed (ErrorLine e)], w')
         | (Inr _, t, w') \<Rightarrow> (0, t, w'))"

section \<open>Callers\<close>

text \<open>
  To speak about every operation of the client and about sequences of calls, a call of
  a method with its arguments is a value of \<open>call\<close>, and \<open>perform\<close> makes the call.
\<close>

datatype call =
    HealthCheck
  | GetServiceInfo
  | AddMemory string string "string option" "int option" "string list option" "int list option"
  | SearchMemories string "int option" "rat option" "string list option"
  | CreateEntity string string "string option" "int option" "pyval dict"
  | SearchEntities string "int option"
  | UnifiedSearch string "int option" "rat option" "string list option" "string list option"
  | GetStatistics
  | CreateUser string "string option" "string option"

fun perform :: "MemoryServiceClient \<Rightarrow> 'w net \<Rightarrow> call \<Rightarrow> (pyval, 'w) io" where
  "perform c net HealthCheck = health_check c net"
| "perform c net GetServiceInfo = get_service_info c net"
| "perform c net (AddMemory t b mt i tg es) = add_memory c net t b mt i tg es"
| "perform c net (SearchMemories q l th mts) = search_memories c net q l th mts"
| "perform c net (CreateEntity n et d i kw) = create_entity c net n et d i kw"
| "perform c net (SearchEntities q l) = search_entities c net q l"
| "perform c net (UnifiedSearch q l th mts ets) = unified_search c net q l th mts ets"
| "perform c net GetStatistics = get_statistics c net"
| "perform c net (CreateUser e n org) = create_user c net e n org"

text \<open>A caller that makes the calls of a list one after the other, whatever their
  outcome: the trace of all of them.\<close>

fun lifetime :: "MemoryServiceClient \<Rightarrow> 'w net \<Rightarrow> call list \<Rightarrow> 'w \<Rightarrow> event list \<times> 'w" where
  "lifetime c net [] w = ([], w)"
| "lifetime c net (x # xs) w =
     (case perform c net x w of
        (r, t, w') \<Rightarrow> (case lifetime c net xs w' of (t', w'') \<Rightarrow> (t @ t', w'')))"

text \<open>The calls of a list made one after the other up to the first that fails: the
  exception of that call, or \<open>None\<close> when none fails.\<close>

fun first_failure :: "MemoryServiceClient \<Rightarrow> 'w net \<Rightarrow> call list \<Rightarrow> 'w \<Rightarrow> exn option \<times> 'w" where
  "first_failure c net [] w = (None, w)"
| "first_failure c net (x # xs) w =
     (case perform c net x w of
        (Inl e, t, w') \<Rightarrow> (Some e, w')
      | (Inr j, t, w') \<Rightarrow> first_failure c net xs w')"

text \<open>The six calls of the driver, in its order.\<close>

definition main_calls :: "call list" where
  "main_calls =
     [HealthCheck,
      GetServiceInfo,
      AddMemory ''Python Client Test''
        ''This memory was created using the Python client library''
        (Some ''MEMORY'') (Some 3) (Some [''test'', ''python'', ''api'']) None,
      SearchMemories ''Python client'' (Some 5) None None,
      CreateEntity ''Python Development Team'' ''ORGANIZATION''
        (Some ''Team responsible for Python client development'') (Some 3) [],
      GetStatistics]"

text \<open>A network that answers every request with the same response, and one that
  always raises the same exception.\<close>

definition respond_with :: "Response \<Rightarrow> 'w net" where
  "respond_with r req w = (Inr r, w)"

definition fail_with :: "exn \<Rightarrow> 'w net" where
  "fail_with e req w = (Inl e, w)"

section \<open>Strings and dictionaries: facts\<close>

lemma lstrip_dropWhile: "lstrip cs s = dropWhile (\<lambda>c. c \<in> set cs) s"
  by (induction s) auto

lemma lstrip_split: "replicate (length s - length (lstrip [c] s)) c @ lstrip [c] s = s"
proof (induction s)
  case Nil
  show ?case by simp
next
  case (Cons a s)
  have len: "length (lstrip [c] s) \<le> length s"
    by (simp add: lstrip_dropWhile length_dropWhile_le)
  show ?case
  proof (cases "a = c")
    case True
    with Cons len show ?thesis by (simp add: Suc_diff_le)
  next
    case False
    then show ?thesis by simp
  qed
qed

lemma lstrip_head: "lstrip cs s = [] \<or> hd (lstrip cs s) \<notin> set cs"
  by (induction s) auto

lemma rstrip_split: "rstrip [c] s @ replicate (length s - length (rstrip [c] s)) c = s"
proof -
  have "rev (replicate (length (rev s) - length (lstrip [c] (rev s))) c @ lstrip [c] (rev s)) = rev (rev s)"
    by (simp only: lstrip_split)
  then show ?thesis by (simp add: rstrip_def)
qed

lemma rstrip_last: "rstrip cs s = [] \<or> last (rstrip cs s) \<notin> set cs"
  using lstrip_head [of cs "rev s"] by (auto simp: rstrip_def last_rev)

lemma issued_request_try:
  "issued (fst (snd (request_try self net method endpoint kw w))) =
     [session_request (session self) method (request_url self endpoint) kw]"
  by (simp add: request_try_def issued_def Let_def split: prod.splits sum.splits option.splits)

lemma issued_append: "issued (t @ t') = issued t @ issued t'"
  by (simp add: issued_def)

lemma issued_Printed: "issued (map Printed ps) = []"
  by (induction ps) (simp_all add: issued_def)

lemma issued_request:
  "issued (fst (snd (request self net meth endpoint kw w))) =
     [session_request (session self) meth (request_url self endpoint) kw]"
  using issued_request_try [of self net meth endpoint kw w]
  by (auto simp add: request_def issued_append issued_Printed  issued_def split: prod.splits sum.splits exn.splits)

text \<open>
  Claim C3. For every base URL and every endpoint, the URL of the request that
  \<^verbatim>\<open>_request\<close> sends is the base URL without its trailing slashes, one slash, and
  the endpoint without its leading slashes: the base URL is \<open>r\<close> followed by slashes only,
  the endpoint is slashes only followed by \<open>l\<close>, \<open>r\<close> does not end with a slash,
  \<open>l\<close> does not start with one, and the URL is \<open>r\<close>, a slash, \<open>l\<close>.
\<close>

theorem C3_url_join:
  "let b = base_url (config self);
       r = rstrip ''/'' b;
       l = lstrip ''/'' endpoint
   in b = r @ replicate (length b - length r) (CHR ''/'')
    \<and> endpoint = replicate (length endpoint - length l) (CHR ''/'') @ l
    \<and> (r = [] \<or> last r \<noteq> CHR ''/'')
    \<and> (l = [] \<or> hd l \<noteq> CHR ''/'')
    \<and> map req_url (issued (fst (snd (request self net method endpoint kw w)))) = [r @ ''/'' @ l]"
  using lstrip_head [of "''/''" endpoint] rstrip_last [of "''/''" "base_url (config self)"]
  by (simp add: Let_def issued_request session_request_def request_url_def lstrip_split rstrip_split)

text \<open>The join at a base URL with two trailing slashes and an endpoint with two leading ones.\<close>

theorem C3_url_join_witness:
  "map req_url (issued (fst (snd (request
      (init (MemoryServiceConfig_new ''https://h.io//'' ''t'' None None))
      (respond_with \<lparr>status_code = 200, body_text = ''{}'', json_result = Some (PDict [])\<rparr>)
      ''GET'' ''//api/health'' no_kwargs ())))) = [''https://h.io/api/health'']"
  using C3_url_join [of "init (MemoryServiceConfig_new ''https://h.io//'' ''t'' None None)"
      "''//api/health''"
      "respond_with \<lparr>status_code = 200, body_text = ''{}'', json_result = Some (PDict [])\<rparr>"
      "''GET''" no_kwargs "()"]
  by (simp add: Let_def init_def MemoryServiceConfig_new_def rstrip_def)

section \<open>Headers, timeout and TLS verification of the requests\<close>

lemma map_of_dict_set: "map_of (dict_set d k v) = (map_of d)(k \<mapsto> v)"
  by (induction d) (auto simp: fun_eq_iff)

lemma dict_get_dict_update:
  "distinct (map fst e) \<Longrightarrow>
   dict_get (dict_update d e) k = (case dict_get e k of Some v \<Rightarrow> Some v | None \<Rightarrow> dict_get d k)"
proof (induction e arbitrary: d)
  case Nil
  show ?case by (simp add: dict_get_def)
next
  case (Cons a e)
  obtain k' v' where a: "a = (k', v')" by (cases a)
  from Cons.prems a have fresh: "map_of e k' = None" and dist: "distinct (map fst e)"
    by (auto simp: map_of_eq_None_iff)
  from Cons.IH [OF dist, of "dict_set d k' v'"] fresh show ?case
    by (auto simp add: a dict_get_def map_of_dict_set split: option.splits)
qed

lemma dict_get_dict_set:
  "dict_get (dict_set d k v) k' = (if k' = k then Some v else dict_get d k')"
  by (simp add: dict_get_def map_of_dict_set)

lemmas run_defs =
  request_def request_try_def respond_with_def raise_for_status_def
  response_json_def diagnostics_def HTTPError_def JSONDecodeError_def session_request_def
  request_url_def rstrip_def no_kwargs_def init_def Session_new_def
  MemoryServiceConfig_new_def issued_def printed_of_def dict_get_def Let_def
  health_check_def get_service_info_def add_memory_def search_memories_def
  create_entity_def create_entity_bind_def has_key_def TypeError_def
  search_entities_def unified_search_def get_statistics_def create_user_def

lemma init_headers:
  "dict_get (headers (session (init cfg))) ''Authorization'' = Some (''Bearer '' @ auth_token cfg)"
  by (simp add: init_def Session_new_def dict_get_def Let_def)

lemma issued_nil: "issued [] = []"
  by (simp add: issued_def)

lemma perform_issued:
  "req \<in> set (issued (fst (snd (perform c net x w)))) \<Longrightarrow>
     req_headers req = headers (session c) \<and> req_timeout req = None \<and>
     req_verify req = verify (session c)"
proof (cases x)
  case (CreateEntity n et d i kw)
  assume "req \<in> set (issued (fst (snd (perform c net x w))))"
  with CreateEntity show ?thesis
    by (cases "create_entity_bind d i kw")
       (auto simp add: create_entity_def issued_request issued_nil session_request_def
          no_kwargs_def)
qed (simp_all add: health_check_def get_service_info_def add_memory_def search_memories_def
        search_entities_def unified_search_def get_statistics_def
        create_user_def issued_request session_request_def no_kwargs_def)

lemma lifetime_issued:
  "req \<in> set (issued (fst (lifetime c net xs w))) \<Longrightarrow>
     req_headers req = headers (session c) \<and> req_timeout req = None \<and>
     req_verify req = verify (session c)"
proof (induction xs arbitrary: w)
  case Nil
  then show ?case by (simp add: issued_def)
next
  case (Cons x xs)
  obtain r t w' where p: "perform c net x w = (r, t, w')" by (cases "perform c net x w")
  obtain t' w'' where l: "lifetime c net xs w' = (t', w'')" by (cases "lifetime c net xs w'")
  from Cons.prems p l have "req \<in> set (issued t) \<or> req \<in> set (issued t')"
    by (simp add: issued_append)
  then show ?case
  proof
    assume "req \<in> set (issued t)"
    with p perform_issued [of req c net x w] show ?thesis by simp
  next
    assume "req \<in> set (issued t')"
    with l Cons.IH [of w'] show ?thesis by simp
  qed
qed

text \<open>
  Claim C4 says that every request carries \<^verbatim>\<open>Authorization: Bearer\<close> and the token. The
  client only puts the header into the session. For a base URL that names a user and a
  password the library finds these credentials and sends Basic authentication instead.
\<close>

theorem C4_counterexample:
  "map (authorization_sent
          (credentials_at ''https://u:p@h.io/api/health'' (Some (''u'', ''p''))))
     (issued (fst (snd (health_check
        (init (MemoryServiceConfig_new ''https://u:p@h.io'' ''tok'' None None))
        (respond_with \<lparr>status_code = 200, body_text = ''{}'', json_result = Some (PDict [])\<rparr>)
        ()))))
   = [Some ''Basic dTpw'']"
  by (simp add: run_defs authorization_sent_def credentials_at_def basic_auth_str_def
        b64_char_def)

text \<open>
  Claim C4, amended. In any sequence of calls of any operations of a client built from a
  configuration with token \<open>t\<close>, every request that the client asks its session to make
  has among its headers \<^verbatim>\<open>Authorization: Bearer\<close> \<open>t\<close>, and it goes out with exactly this
  header when the library finds no credentials for its URL; when the library finds a
  user and a password, the request goes out with their Basic authentication.
\<close>

theorem C4_authorization_header:
  "\<forall>req \<in> set (issued (fst (lifetime (init cfg) net calls w))).
      dict_get (req_headers req) ''Authorization'' = Some (''Bearer '' @ auth_token cfg)
      \<and> authorization_sent found req =
          (case found (req_url req) of
             None \<Rightarrow> Some (''Bearer '' @ auth_token cfg)
           | Some (username, password) \<Rightarrow> Some (basic_auth_str username password))"
proof
  fix req
  assume "req \<in> set (issued (fst (lifetime (init cfg) net calls w)))"
  then have "req_headers req = headers (session (init cfg))"
    using lifetime_issued [of req "init cfg" net calls w] by simp
  then have "dict_get (req_headers req) ''Authorization'' = Some (''Bearer '' @ auth_token cfg)"
    using init_headers [of cfg] by simp
  then show "dict_get (req_headers req) ''Authorization'' = Some (''Bearer '' @ auth_token cfg)
      \<and> authorization_sent found req =
          (case found (req_url req) of
             None \<Rightarrow> Some (''Bearer '' @ auth_token cfg)
           | Some (username, password) \<Rightarrow> Some (basic_auth_str username password))"
    by (simp add: authorization_sent_def split: option.splits)
qed

text \<open>Two calls of one client on a machine without credentials for its URLs: both
  requests go out with the header.\<close>

theorem C4_authorization_header_witness:
  "map (authorization_sent (credentials_at [] None))
     (issued (fst (lifetime (init (MemoryServiceConfig_new ''https://h.io'' ''tok'' None None))
        (respond_with \<lparr>status_code = 200, body_text = ''{}'', json_result = Some (PDict [])\<rparr>)
        [HealthCheck, CreateUser ''a@b.c'' None None] ())))
   = [Some ''Bearer tok'', Some ''Bearer tok'']"
  using C4_authorization_header [of "MemoryServiceConfig_new ''https://h.io'' ''tok'' None None"
     "respond_with \<lparr>status_code = 200, body_text = ''{}'', json_result = Some (PDict [])\<rparr>"
     "[HealthCheck, CreateUser ''a@b.c'' None None]" "()" "credentials_at [] None"]
  by (simp add: run_defs authorization_sent_def credentials_at_def)

text \<open>
  Claim C1. The configured timeout is meant to apply to every request. It does not:
  \<^verbatim>\<open>__init__\<close> stores it in an attribute of the session that the library does not
  read, and \<^verbatim>\<open>_request\<close> passes no \<^verbatim>\<open>timeout\<close> argument. With the default
  configuration (timeout 30) the request of \<^verbatim>\<open>health_check\<close> goes out with no timeout.
\<close>

theorem C1_timeout_not_applied:
  "timeout (config (init (MemoryServiceConfig_new ''https://h.io'' ''tok'' None None))) = 30
   \<and> timeout_attr (session (init (MemoryServiceConfig_new ''https://h.io'' ''tok'' None None))) = Some 30
   \<and> map req_timeout (issued (fst (snd (health_check
         (init (MemoryServiceConfig_new ''https://h.io'' ''tok'' None None))
         (respond_with \<lparr>status_code = 200, body_text = ''{}'', json_result = Some (PDict [])\<rparr>)
         ())))) = [None]"
  by (simp add: health_check_def issued_request session_request_def no_kwargs_def init_def
        MemoryServiceConfig_new_def)

text \<open>So for every request of every sequence of calls: no timeout. The verification flag
  that the session holds for it is the configured one.\<close>

lemma requests_without_timeout:
  "req \<in> set (issued (fst (lifetime (init cfg) net calls w))) \<Longrightarrow>
     req_timeout req = None \<and> req_verify req = verify (session (init cfg))
     \<and> verify (session (init cfg)) = verify_ssl cfg"
  using lifetime_issued [of req "init cfg" net calls w] by (simp add: init_def)

section \<open>Outcome of a request\<close>

lemma printed_of_append: "printed_of (t @ t') = printed_of t @ printed_of t'"
  by (simp add: printed_of_def)

lemma printed_of_Printed: "printed_of (map Printed ps) = ps"
  by (induction ps) (simp_all add: printed_of_def)

lemma printed_of_request_try: "printed_of (fst (snd (request_try self net meth endpoint kw w))) = []"
  by (simp add: request_try_def printed_of_def Let_def split: prod.splits sum.splits option.splits)

text \<open>
  Claim C2 says that a response whose status is not 2xx makes \<^verbatim>\<open>_request\<close> fail and
  that one whose status is 2xx makes it return the parsed body. The code asks the
  library, which raises for 4xx and 5xx only: a response with status 300 and a JSON body
  is returned as a result. And a 2xx response whose body is not JSON makes the call fail.
\<close>

theorem C2_counterexample:
  "fst (request (init (MemoryServiceConfig_new ''https://h.io'' ''tok'' None None))
      (respond_with \<lparr>status_code = 300, body_text = ''{}'', json_result = Some (PDict [])\<rparr>)
      ''GET'' ''/api/health'' no_kwargs ()) = Inr (PDict [])
   \<and> fst (request (init (MemoryServiceConfig_new ''https://h.io'' ''tok'' None None))
      (respond_with \<lparr>status_code = 200, body_text = ''OK'', json_result = None\<rparr>)
      ''GET'' ''/api/health'' no_kwargs ()) = Inl JSONDecodeError"
  by (simp add: run_defs)

text \<open>
  Claim C2, amended. When the network answers with a response \<open>r\<close>: if its status is
  4xx or 5xx the call fails with the library's \<^verbatim>\<open>HTTPError\<close>, which carries \<open>r\<close>
  (its status code and its body), and prints the failure and then the parsed JSON body
  of \<open>r\<close>, or the text of \<open>r\<close> when the body does not parse. For every other status,
  2xx among them, the call returns the parsed JSON body when the body parses, printing
  nothing, and fails with the JSON decoding error otherwise.
\<close>

theorem C2_request_outcome:
  "net (session_request (session self) meth (request_url self endpoint) kw) w = (Inr r, w') \<Longrightarrow>
     fst (request self net meth endpoint kw w) =
       (if 400 \<le> status_code r \<and> status_code r < 600 then Inl (HTTPError r)
        else case json_result r of Some j \<Rightarrow> Inr j | None \<Rightarrow> Inl JSONDecodeError)
     \<and> (if 400 \<le> status_code r \<and> status_code r < 600
        then printed_of (fst (snd (request self net meth endpoint kw w))) =
               [RequestFailed (HTTPError r),
                case json_result r of Some j \<Rightarrow> ErrorDetails j
                | None \<Rightarrow> ResponseText (body_text r)]
        else case json_result r of
               Some j \<Rightarrow> printed_of (fst (snd (request self net meth endpoint kw w))) = []
             | None \<Rightarrow> True)"
  by (auto simp add: request_def request_try_def raise_for_status_def response_json_def
        diagnostics_def HTTPError_def JSONDecodeError_def printed_of_def Let_def
      split: option.splits)

text \<open>A 404 with the JSON body of an error: the failure carries the response, and the parsed body is printed.\<close>

theorem C2_request_outcome_witness:
  "fst (request (init (MemoryServiceConfig_new ''https://h.io'' ''tok'' None None))
      (respond_with \<lparr>status_code = 404, body_text = ''{\"error\":\"not found\"}'',
         json_result = Some (PDict [(''error'', PStr ''not found'')])\<rparr>)
      ''GET'' ''/api/health'' no_kwargs ())
     = Inl (HTTPError \<lparr>status_code = 404, body_text = ''{\"error\":\"not found\"}'',
         json_result = Some (PDict [(''error'', PStr ''not found'')])\<rparr>)
   \<and> printed_of (fst (snd (request (init (MemoryServiceConfig_new ''https://h.io'' ''tok'' None None))
      (respond_with \<lparr>status_code = 404, body_text = ''{\"error\":\"not found\"}'',
         json_result = Some (PDict [(''error'', PStr ''not found'')])\<rparr>)
      ''GET'' ''/api/health'' no_kwargs ())))
     = [RequestFailed (HTTPError \<lparr>status_code = 404, body_text = ''{\"error\":\"not found\"}'',
         json_result = Some (PDict [(''error'', PStr ''not found'')])\<rparr>),
        ErrorDetails (PDict [(''error'', PStr ''not found'')])]"
  using C2_request_outcome [of
      "respond_with \<lparr>status_code = 404, body_text = ''{\"error\":\"not found\"}'',
         json_result = Some (PDict [(''error'', PStr ''not found'')])\<rparr>"
      "init (MemoryServiceConfig_new ''https://h.io'' ''tok'' None None)"
      "''GET''" "''/api/health''" no_kwargs "()"
      "\<lparr>status_code = 404, body_text = ''{\"error\":\"not found\"}'',
         json_result = Some (PDict [(''error'', PStr ''not found'')])\<rparr>" "()"]
  by (simp add: respond_with_def)

text \<open>
  Claim C10. \<^verbatim>\<open>_request\<close> ends as its \<^verbatim>\<open>try\<close> block ends: with the same result or
  the very same exception, and in the same state of the network. The handler only
  prints: for a \<^verbatim>\<open>RequestException\<close> the failure, then the parsed body of its response
  or, when that does not parse, the text of the response; this choice does not touch the
  exception that is raised again. Another exception passes the handler by and nothing
  is printed.
\<close>

theorem C10_error_reraised:
  "fst (request self net meth endpoint kw w) = fst (request_try self net meth endpoint kw w)
   \<and> snd (snd (request self net meth endpoint kw w))
       = snd (snd (request_try self net meth endpoint kw w))
   \<and> printed_of (fst (snd (request self net meth endpoint kw w))) =
       (case fst (request_try self net meth endpoint kw w) of
          Inr j \<Rightarrow> []
        | Inl (OtherException m) \<Rightarrow> []
        | Inl (RequestException cls resp) \<Rightarrow>
            RequestFailed (RequestException cls resp) #
            (case resp of
               None \<Rightarrow> []
             | Some r \<Rightarrow>
                 (case json_result r of
                    Some d \<Rightarrow> [ErrorDetails d]
                  | None \<Rightarrow> [ResponseText (body_text r)])))"
proof -
  obtain res t w' where rt: "request_try self net meth endpoint kw w = (res, t, w')"
    by (cases "request_try self net meth endpoint kw w")
  have quiet: "printed_of t = []"
    using printed_of_request_try [of self net meth endpoint kw w] rt by simp
  show ?thesis
  proof (cases res)
    case (Inr j)
    with rt quiet show ?thesis by (simp add: request_def)
  next
    case (Inl e)
    show ?thesis
    proof (cases e)
      case (OtherException m)
      with Inl rt quiet show ?thesis by (simp add: request_def)
    next
      case (RequestException cls resp)
      with Inl rt quiet show ?thesis
        by (simp add: request_def printed_of_append printed_of_Printed [of "_ # _", simplified]
              diagnostics_def response_json_def split: option.splits)
    qed
  qed
qed

text \<open>A 500 whose body is not JSON, and an exception that is no RequestException.\<close>

theorem C10_error_reraised_witness:
  "fst (request (init (MemoryServiceConfig_new ''https://h.io'' ''tok'' None None))
      (respond_with \<lparr>status_code = 500, body_text = ''Internal Server Error'',
         json_result = None\<rparr>)
      ''GET'' ''/api/health'' no_kwargs ())
     = Inl (HTTPError \<lparr>status_code = 500, body_text = ''Internal Server Error'',
         json_result = None\<rparr>)
   \<and> printed_of (fst (snd (request (init (MemoryServiceConfig_new ''https://h.io'' ''tok'' None None))
      (respond_with \<lparr>status_code = 500, body_text = ''Internal Server Error'',
         json_result = None\<rparr>)
      ''GET'' ''/api/health'' no_kwargs ())))
     = [RequestFailed (HTTPError \<lparr>status_code = 500, body_text = ''Internal Server Error'',
         json_result = None\<rparr>), ResponseText ''Internal Server Error'']
   \<and> fst (request (init (MemoryServiceConfig_new ''https://h.io'' ''tok'' None None))
      (fail_with (OtherException ''ValueError''))
      ''GET'' ''/api/health'' no_kwargs ()) = Inl (OtherException ''ValueError'')"
  using C10_error_reraised [of "init (MemoryServiceConfig_new ''https://h.io'' ''tok'' None None)"
      "respond_with \<lparr>status_code = 500, body_text = ''Internal Server Error'',
         json_result = None\<rparr>" "''GET''" "''/api/health''" no_kwargs "()"]
    C10_error_reraised [of "init (MemoryServiceConfig_new ''https://h.io'' ''tok'' None None)"
      "fail_with (OtherException ''ValueError'')" "''GET''" "''/api/health''" no_kwargs "()"]
  by (simp add: request_try_def respond_with_def fail_with_def raise_for_status_def
        HTTPError_def Let_def)

section \<open>Bodies and query parameters\<close>

text \<open>
  Claim C7. \<^verbatim>\<open>add_memory(title, content)\<close> with no optional argument sends one request,
  a POST to \<^verbatim>\<open>/api/memories\<close>, whose JSON body is exactly the title, the content,
  \<^verbatim>\<open>memory_type="MEMORY"\<close>, \<^verbatim>\<open>importance=2\<close>, \<^verbatim>\<open>tags=[]\<close> and \<^verbatim>\<open>entity_ids=[]\<close>.
\<close>

theorem C7_add_memory_defaults:
  "map req_json (issued (fst (snd (add_memory self net title content None None None None w)))) =
     [Some (PDict [(''title'', PStr title),
                   (''content'', PStr content),
                   (''memory_type'', PStr ''MEMORY''),
                   (''importance'', PInt 2),
                   (''tags'', PList []),
                   (''entity_ids'', PList [])])]
   \<and> map req_method (issued (fst (snd (add_memory self net title content None None None None w))))
       = [''POST'']
   \<and> map req_url (issued (fst (snd (add_memory self net title content None None None None w))))
       = [request_url self ''/api/memories'']"
  by (simp add: add_memory_def add_memory_data_def issued_request session_request_def
        no_kwargs_def)

text \<open>The call \<^verbatim>\<open>add_memory("T", "C")\<close>.\<close>

theorem C7_add_memory_defaults_witness:
  "map req_json (issued (fst (snd (add_memory
      (init (MemoryServiceConfig_new ''https://h.io/'' ''tok'' None None))
      (respond_with \<lparr>status_code = 201, body_text = ''{}'', json_result = Some (PDict [])\<rparr>)
      ''T'' ''C'' None None None None ())))) =
     [Some (PDict [(''title'', PStr ''T''),
                   (''content'', PStr ''C''),
                   (''memory_type'', PStr ''MEMORY''),
                   (''importance'', PInt 2),
                   (''tags'', PList []),
                   (''entity_ids'', PList [])])]
   \<and> map req_url (issued (fst (snd (add_memory
      (init (MemoryServiceConfig_new ''https://h.io/'' ''tok'' None None))
      (respond_with \<lparr>status_code = 201, body_text = ''{}'', json_result = Some (PDict [])\<rparr>)
      ''T'' ''C'' None None None None ())))) = [''https://h.io/api/memories'']"
  using C7_add_memory_defaults [of "init (MemoryServiceConfig_new ''https://h.io/'' ''tok'' None None)"
      "respond_with \<lparr>status_code = 201, body_text = ''{}'', json_result = Some (PDict [])\<rparr>"
      "''T''" "''C''" "()"]
  by (simp add: request_url_def rstrip_def init_def MemoryServiceConfig_new_def)

text \<open>
  Claim C6. \<^verbatim>\<open>search_memories\<close> and \<^verbatim>\<open>unified_search\<close> send the parameters that
  \<open>search_memories_params\<close> and \<open>unified_search_params\<close> build. With no optional
  argument these are exactly the query, \<^verbatim>\<open>limit=10\<close> and \<^verbatim>\<open>threshold=0.7\<close>. A list
  parameter that is absent or empty has no entry; one that is not empty is sent as its
  elements joined by commas.
\<close>

theorem C6_search_params:
  "map req_params (issued (fst (snd (search_memories self net q l th mts w))))
     = [search_memories_params q l th mts]
   \<and> map req_params (issued (fst (snd (unified_search self net q l th mts ets w))))
     = [unified_search_params q l th mts ets]
   \<and> search_memories_params q None None None
     = [(''query'', PStr q), (''limit'', PInt 10), (''threshold'', PFloat (7 / 10))]
   \<and> unified_search_params q None None None None
     = [(''query'', PStr q), (''limit'', PInt 10), (''threshold'', PFloat (7 / 10))]
   \<and> dict_get (search_memories_params q l th mts) ''memory_types''
     = (case mts of None \<Rightarrow> None | Some xs \<Rightarrow> if xs = [] then None else Some (PStr (join '','' xs)))
   \<and> dict_get (unified_search_params q l th mts ets) ''memory_types''
     = (case mts of None \<Rightarrow> None | Some xs \<Rightarrow> if xs = [] then None else Some (PStr (join '','' xs)))
   \<and> dict_get (unified_search_params q l th mts ets) ''entity_types''
     = (case ets of None \<Rightarrow> None | Some xs \<Rightarrow> if xs = [] then None else Some (PStr (join '','' xs)))"
  by (simp add: search_memories_def unified_search_def issued_request session_request_def
        no_kwargs_def search_memories_params_def unified_search_params_def dict_get_def
        Let_def split: option.splits)

text \<open>Two memory types are joined to \<^verbatim>\<open>MEMORY,FACT\<close>; an empty list is left out.\<close>

theorem C6_search_params_witness:
  "map req_params (issued (fst (snd (search_memories
      (init (MemoryServiceConfig_new ''https://h.io/'' ''tok'' None None))
      (respond_with \<lparr>status_code = 200, body_text = ''{}'', json_result = Some (PDict [])\<rparr>)
      ''q'' None None (Some [''MEMORY'', ''FACT'']) ()))))
     = [[(''query'', PStr ''q''), (''limit'', PInt 10), (''threshold'', PFloat (7 / 10)),
         (''memory_types'', PStr ''MEMORY,FACT'')]]
   \<and> map req_params (issued (fst (snd (unified_search
      (init (MemoryServiceConfig_new ''https://h.io/'' ''tok'' None None))
      (respond_with \<lparr>status_code = 200, body_text = ''{}'', json_result = Some (PDict [])\<rparr>)
      ''q'' None None (Some []) (Some [''PERSON'']) ()))))
     = [[(''query'', PStr ''q''), (''limit'', PInt 10), (''threshold'', PFloat (7 / 10)),
         (''entity_types'', PStr ''PERSON'')]]"
  using C6_search_params [of "init (MemoryServiceConfig_new ''https://h.io/'' ''tok'' None None)"
      "respond_with \<lparr>status_code = 200, body_text = ''{}'', json_result = Some (PDict [])\<rparr>"
      "''q''" None None "Some [''MEMORY'', ''FACT'']" "()" "Some [''PERSON'']"]
    C6_search_params [of "init (MemoryServiceConfig_new ''https://h.io/'' ''tok'' None None)"
      "respond_with \<lparr>status_code = 200, body_text = ''{}'', json_result = Some (PDict [])\<rparr>"
      "''q''" None None "Some []" "()" "Some [''PERSON'']"]
  by (simp add: search_memories_params_def unified_search_params_def)






lemma issued_create_entity:
  "map req_json (issued (fst (snd
     (create_entity self net ename entity_type description importance extra w)))) =
     (case create_entity_bind description importance extra of
        Inl e \<Rightarrow> []
      | Inr (d, i, kwargs) \<Rightarrow> [Some (PDict (create_entity_data ename entity_type d i kwargs))])"
  by (cases "create_entity_bind description importance extra")
     (auto simp add: create_entity_def issued_request issued_nil session_request_def
        no_kwargs_def)

text \<open>
  Claim C9. For \<^verbatim>\<open>create_user\<close>, an empty \<^verbatim>\<open>name\<close> or \<^verbatim>\<open>organization\<close> gives the
  body that an absent one gives; the body has a name (an organization) exactly when the
  argument is a string that is not empty. For \<^verbatim>\<open>create_entity\<close>, an empty description
  gives the body that an absent one gives, and that body has no description; a call with
  an empty description does what the call without the description does.
\<close>

theorem C9_empty_string_omitted:
  "create_user_data email (Some []) organization = create_user_data email None organization
   \<and> create_user_data email name (Some []) = create_user_data email name None
   \<and> dict_get (create_user_data email name organization) ''name''
     = (case name of None \<Rightarrow> None | Some s \<Rightarrow> if s = [] then None else Some (PStr s))
   \<and> dict_get (create_user_data email name organization) ''organization''
     = (case organization of None \<Rightarrow> None
        | Some s \<Rightarrow> if s = [] then None else Some (PStr s))
   \<and> map req_json (issued (fst (snd (create_user self net email name organization w))))
     = [Some (PDict (create_user_data email name organization))]
   \<and> create_entity_data ename entity_type (PStr []) imp kwargs
     = create_entity_data ename entity_type PNone imp kwargs
   \<and> (distinct (map fst kwargs) \<and> dict_get kwargs ''description'' = None \<longrightarrow>
        dict_get (create_entity_data ename entity_type (PStr []) imp kwargs)
          ''description'' = None)
   \<and> (\<not> has_key extra ''description'' \<longrightarrow>
        create_entity self net ename entity_type (Some []) importance extra w
          = create_entity self net ename entity_type None importance extra w)
   \<and> map req_json (issued (fst (snd
        (create_entity self net ename entity_type description importance extra w))))
     = (case create_entity_bind description importance extra of
          Inl e \<Rightarrow> []
        | Inr (d, i, kw) \<Rightarrow> [Some (PDict (create_entity_data ename entity_type d i kw))])"
proof -
  have user: "create_user_data email (Some []) organization = create_user_data email None organization
   \<and> create_user_data email name (Some []) = create_user_data email name None
   \<and> dict_get (create_user_data email name organization) ''name''
     = (case name of None \<Rightarrow> None | Some s \<Rightarrow> if s = [] then None else Some (PStr s))
   \<and> dict_get (create_user_data email name organization) ''organization''
     = (case organization of None \<Rightarrow> None
        | Some s \<Rightarrow> if s = [] then None else Some (PStr s))
   \<and> map req_json (issued (fst (snd (create_user self net email name organization w))))
     = [Some (PDict (create_user_data email name organization))]"
    by (simp add: create_user_data_def create_user_def issued_request session_request_def
          no_kwargs_def dict_get_def Let_def split: option.splits)
  have data: "create_entity_data ename entity_type (PStr []) imp kwargs
     = create_entity_data ename entity_type PNone imp kwargs"
    by (simp add: create_entity_data_def)
  have absent: "distinct (map fst kwargs) \<and> dict_get kwargs ''description'' = None \<longrightarrow>
        dict_get (create_entity_data ename entity_type (PStr []) imp kwargs)
          ''description'' = None"
    by (simp add: create_entity_data_def dict_get_dict_update) (simp add: dict_get_def)
  have call: "\<not> has_key extra ''description'' \<longrightarrow>
        create_entity self net ename entity_type (Some []) importance extra w
          = create_entity self net ename entity_type None importance extra w"
    by (simp add: create_entity_def create_entity_bind_def has_key_def create_entity_data_def)
  from user data absent call issued_create_entity [of self net ename entity_type description importance extra w]
  show ?thesis by blast
qed

text \<open>An empty name, and an empty description.\<close>

theorem C9_empty_string_omitted_witness:
  "map req_json (issued (fst (snd (create_user
      (init (MemoryServiceConfig_new ''https://h.io/'' ''tok'' None None))
      (respond_with \<lparr>status_code = 200, body_text = ''{}'', json_result = Some (PDict [])\<rparr>)
      ''a@b.c'' (Some []) (Some ''Org'') ()))))
     = [Some (PDict [(''email'', PStr ''a@b.c''), (''organization'', PStr ''Org'')])]
   \<and> map req_json (issued (fst (snd (create_entity
      (init (MemoryServiceConfig_new ''https://h.io/'' ''tok'' None None))
      (respond_with \<lparr>status_code = 200, body_text = ''{}'', json_result = Some (PDict [])\<rparr>)
      ''n'' ''PERSON'' (Some []) None [(''website'', PStr ''w'')] ()))))
     = [Some (PDict [(''name'', PStr ''n''), (''entity_type'', PStr ''PERSON''),
                     (''importance'', PInt 2), (''website'', PStr ''w'')])]"
  using C9_empty_string_omitted [where email = "''a@b.c''" and name = "Some []"
      and organization = "Some ''Org''"
      and self = "init (MemoryServiceConfig_new ''https://h.io/'' ''tok'' None None)"
      and net = "respond_with \<lparr>status_code = 200, body_text = ''{}'', json_result = Some (PDict [])\<rparr>"
      and w = "()" and ename = "''n''" and entity_type = "''PERSON''" and imp = "PInt 2"
      and kwargs = "[(''website'', PStr ''w'')]" and extra = "[(''website'', PStr ''w'')]"
      and importance = None and description = "Some []"]
  by (simp add: run_defs create_user_data_def create_entity_data_def)

lemma printed_of_snoc: "printed_of (t @ [Printed p]) = printed_of t @ [p]"
  by (simp add: printed_of_def)




section \<open>The driver\<close>

lemma then_io_print:
  "then_io (print_io p) f w = (case f () w of (r, t, w') \<Rightarrow> (r, Printed p # t, w'))"
  by (simp add: then_io_def print_io_def)

lemma then_io_outcome:
  "fst (then_io m f w) =
     (case m w of (Inl e, t, w') \<Rightarrow> Inl e | (Inr x, t, w') \<Rightarrow> fst (f x w'))"
  "snd (snd (then_io m f w)) =
     (case m w of (Inl e, t, w') \<Rightarrow> w' | (Inr x, t, w') \<Rightarrow> snd (snd (f x w')))"
  by (simp_all add: then_io_def split: prod.splits sum.splits)

lemma print_outcome:
  "fst (case x of (r, t, w') \<Rightarrow> (r, g t, w')) = fst x"
  "snd (snd (case x of (r, t, w') \<Rightarrow> (r, g t, w'))) = snd (snd x)"
  by (simp_all split: prod.splits)

lemma main_try_outcome:
  "fst (main_try c net w) =
     (case fst (first_failure c net main_calls w) of None \<Rightarrow> Inr () | Some e \<Rightarrow> Inl e)
   \<and> snd (snd (main_try c net w)) = snd (first_failure c net main_calls w)"
  by (simp add: main_try_def main_calls_def then_io_print print_outcome then_io_outcome
        print_io_def split: prod.splits sum.splits)

text \<open>
  Claim C8. The driver makes its six calls in order. Its exit status is 1 when one of
  them fails and 0 when none does; when one fails, the last thing it prints is the error
  of that call, and no later call is made.
\<close>

theorem C8_main_exit_status:
  "fst (main env net w) =
     (case fst (first_failure (init (main_config env)) net main_calls w) of
        None \<Rightarrow> 0 | Some e \<Rightarrow> 1)
   \<and> (case fst (first_failure (init (main_config env)) net main_calls w) of
        None \<Rightarrow> True
      | Some e \<Rightarrow> printed_of (fst (snd (main env net w))) \<noteq> [] \<and>
                  last (printed_of (fst (snd (main env net w)))) = ErrorLine e)
   \<and> snd (snd (main env net w))
       = snd (first_failure (init (main_config env)) net main_calls w)"
proof -
  obtain r t w' where mt: "main_try (init (main_config env)) net w = (r, t, w')"
    by (cases "main_try (init (main_config env)) net w")
  obtain f w'' where ff: "first_failure (init (main_config env)) net main_calls w = (f, w'')"
    by (cases "first_failure (init (main_config env)) net main_calls w")
  from main_try_outcome [of "init (main_config env)" net w] mt ff
  have r: "r = (case f of None \<Rightarrow> Inr () | Some e \<Rightarrow> Inl e)" and w: "w' = w''"
    by simp_all
  show ?thesis
  proof (cases f)
    case None
    with r w mt ff show ?thesis by (simp add: main_def)
  next
    case (Some e)
    with r w mt ff show ?thesis by (simp add: main_def printed_of_snoc)
  qed
qed

text \<open>A server that answers every call, one that refuses every call, and a network that is down.\<close>

theorem C8_main_exit_status_witness:
  "fst (main Map.empty
      (respond_with \<lparr>status_code = 200, body_text = ''{}'', json_result = Some (PDict [])\<rparr>)
      ()) = 0
   \<and> fst (main Map.empty
      (respond_with \<lparr>status_code = 401, body_text = ''Unauthorized'', json_result = None\<rparr>)
      ()) = 1
   \<and> fst (main Map.empty (fail_with (RequestException ''ConnectionError'' None)) ()) = 1"
  using C8_main_exit_status [of Map.empty
      "respond_with \<lparr>status_code = 200, body_text = ''{}'', json_result = Some (PDict [])\<rparr>" "()"]
    C8_main_exit_status [of Map.empty
      "respond_with \<lparr>status_code = 401, body_text = ''Unauthorized'', json_result = None\<rparr>" "()"]
    C8_main_exit_status [of Map.empty "fail_with (RequestException ''ConnectionError'' None)" "()"]
  by (simp add: main_calls_def fail_with_def run_defs)

end
